theory Spec2Isabelle
  imports Complex_Main
begin

section \<open>The word-language-model training script (main.py)\<close>

text \<open>
  A shallow embedding of \<^verbatim>\<open>main.py\<close>: the batchifier, the window sampler, the
  evaluation loop, the training loop and the epoch controller. Tensors of token ids are
  lists (a grid is a list of rows), Python floats are the reals they denote (a finite
  float compares as its real value; NaN and rounding are outside the model), and every
  exception the script can raise on the paths modelled is a value of \<open>error\<close>.
  The neural network (\<^verbatim>\<open>model.py\<close>), the corpus reader (\<^verbatim>\<open>data.py\<close>) and
  the tensor library are not part of the script: they enter as the fields of the record
  \<open>rnn_model\<close>.
\<close>

subsection \<open>Exceptions\<close>

datatype error =
    ZeroDivisionError
  | ValueError
  | TypeError
  | AttributeError
  | FileNotFoundError
  | KeyboardInterrupt

subsection \<open>Command-line arguments (lines 12-31)\<close>

text \<open>
  Only the options the modelled code reads. \<open>batch_size\<close> and \<open>epochs\<close> are
  counts; \<open>bptt\<close> and \<open>log_interval\<close> are Python ints, since the code's behaviour at
  zero and below matters to the window iteration and to the logging test.
\<close>

record args =
  lr_arg :: real
  clip :: real
  epochs :: nat
  batch_size :: nat
  bptt :: int
  log_interval :: int
  LAMBDA :: real

text \<open>The defaults of lines 18-29.\<close>

definition default_args :: args where
  "default_args =
     \<lparr>lr_arg = 20, clip = 0.25, epochs = 40, batch_size = 20, bptt = 35,
      log_interval = 200, LAMBDA = 0\<rparr>"

subsection \<open>Batchifier (lines 56-70)\<close>

text \<open>\<^verbatim>\<open>data.narrow(0, start, length)\<close>: \<open>length\<close> elements from \<open>start\<close>.\<close>

definition narrow :: "'a list \<Rightarrow> nat \<Rightarrow> nat \<Rightarrow> 'a list" where
  "narrow xs start len = take len (drop start xs)"

text \<open>
  \<^verbatim>\<open>data.view(bsz, -1)\<close>: \<open>bsz\<close> rows, the row length inferred from the number
  of elements.
\<close>

definition view_rows :: "nat \<Rightarrow> 'a list \<Rightarrow> 'a list list" where
  "view_rows bsz xs =
     (let w = length xs div bsz
      in map (\<lambda>c. take w (drop (c * w) xs)) [0..<bsz])"

text \<open>\<^verbatim>\<open>.t()\<close>: the transpose of a matrix given as its list of rows.\<close>

definition t_grid :: "'a list list \<Rightarrow> 'a list list" where
  "t_grid m =
     (let w = (case m of [] \<Rightarrow> 0 | row # _ \<Rightarrow> length row)
      in map (\<lambda>r. map (\<lambda>row. row ! r) m) [0..<w])"

text \<open>
  \<^verbatim>\<open>batchify(data, bsz)\<close>. The floor division raises on \<open>bsz = 0\<close>. Moving the
  result to the accelerator does not change its values and is left out. On a stream
  shorter than \<open>bsz\<close> the model gives the grid without rows; whether the tensor library
  accepts a \<^verbatim>\<open>narrow\<close> of length zero is outside the model.
\<close>

definition batchify :: "'a list \<Rightarrow> nat \<Rightarrow> error + 'a list list" where
  "batchify data bsz =
     (if bsz = 0 then Inl ZeroDivisionError
      else
        let nbatch = length data div bsz;
            data1 = narrow data 0 (nbatch * bsz)
        in Inr (t_grid (view_rows bsz data1)))"

definition eval_batch_size :: nat where
  "eval_batch_size = 10"

text \<open>The three token streams the corpus reader hands over.\<close>

record corpus =
  train_stream :: "nat list"
  valid_stream :: "nat list"
  test_stream :: "nat list"

definition train_data :: "args \<Rightarrow> corpus \<Rightarrow> error + nat list list" where
  "train_data a c = batchify (train_stream c) (batch_size a)"

definition val_data :: "args \<Rightarrow> corpus \<Rightarrow> error + nat list list" where
  "val_data a c = batchify (valid_stream c) eval_batch_size"

definition test_data :: "args \<Rightarrow> corpus \<Rightarrow> error + nat list list" where
  "test_data a c = batchify (test_stream c) eval_batch_size"

subsection \<open>Window sampler (lines 94-98, and the ranges of lines 108 and 129)\<close>

text \<open>
  Python's \<^verbatim>\<open>range(start, stop, step)\<close>: a zero step raises, a positive step counts
  up while below \<open>stop\<close>, a negative step counts down while above it.
\<close>

definition py_range :: "int \<Rightarrow> int \<Rightarrow> int \<Rightarrow> error + int list" where
  "py_range start stop step =
     (if step = 0 then Inl ValueError
      else if 0 < step then
        Inr (map (\<lambda>k. start + int k * step)
               [0..<nat ((stop - start + step - 1) div step)])
      else
        Inr (map (\<lambda>k. start + int k * step)
               [0..<nat ((start - stop - step - 1) div (- step))]))"

text \<open>
  A slice bound as Python reads it for a sequence of length \<open>n\<close>: a negative bound
  counts from the end, and every bound is clamped into \<open>0..n\<close>. (A tensor library
  that rejects an empty slice would raise where the model gives the empty list; the loops
  never ask for one on a grid of two steps or more.)
\<close>

definition slice_index :: "nat \<Rightarrow> int \<Rightarrow> nat" where
  "slice_index n k = (if k < 0 then nat (max 0 (k + int n)) else min (nat k) n)"

definition py_slice :: "'a list \<Rightarrow> int \<Rightarrow> int \<Rightarrow> 'a list" where
  "py_slice xs lo hi =
     (let a = slice_index (length xs) lo;
          b = slice_index (length xs) hi
      in take (b - a) (drop a xs))"

text \<open>The window length of line 95.\<close>

definition seq_len :: "int \<Rightarrow> 'a list list \<Rightarrow> int \<Rightarrow> int" where
  "seq_len bptt_len source i = min bptt_len (int (length source) - 1 - i)"

text \<open>
  \<^verbatim>\<open>get_batch(source, i, evaluation)\<close>. The \<open>evaluation\<close> flag only marks the input
  as carrying no gradient history; it does not change the values returned.
  \<^verbatim>\<open>.view(-1)\<close> flattens the target rows in order.
\<close>

definition get_batch :: "int \<Rightarrow> 'a list list \<Rightarrow> int \<Rightarrow> 'a list list \<times> 'a list" where
  "get_batch bptt_len source i =
     (let L = seq_len bptt_len source i;
          data = py_slice source i (i + L);
          target = concat (py_slice source (i + 1) (i + 1 + L))
      in (data, target))"

text \<open>
  The offsets both loops iterate over:
  \<^verbatim>\<open>range(0, data_source.size(0) - 1, args.bptt)\<close>.
\<close>

definition window_offsets :: "int \<Rightarrow> 'a list list \<Rightarrow> error + int list" where
  "window_offsets bptt_len source = py_range 0 (int (length source) - 1) bptt_len"

subsection \<open>Hidden state (lines 87-92)\<close>

text \<open>
  A hidden state is a variable (its data, and whether it still carries its history) or
  a tuple of hidden states. \<^verbatim>\<open>repackage_hidden\<close> rebuilds every variable from its
  data alone.
\<close>

datatype 'v hidden = Variable 'v bool | Tuple "'v hidden list"

fun repackage_hidden :: "'v hidden \<Rightarrow> 'v hidden" where
  "repackage_hidden (Variable d hist) = Variable d False"
| "repackage_hidden (Tuple hs) = Tuple (map repackage_hidden hs)"

subsection \<open>The model object\<close>

text \<open>
  A parameter has its data, its gradient (\<^verbatim>\<open>p.grad\<close>, which is \<^verbatim>\<open>None\<close> until
  a backward pass reaches the parameter) and its \<^verbatim>\<open>requires_grad\<close> flag. Tensor
  values are the elements of a real vector space \<open>'v\<close>.
\<close>

record 'v param =
  pdata :: 'v
  pgrad :: "'v option"
  requires_grad :: bool

record 'v model_state =
  params :: "'v param list"
  training :: bool

text \<open>
  What the script calls but does not define. Modelled from the spec: the model function
  "exposes \<^verbatim>\<open>init_hidden(stream_count)\<close>, a forward call (input, hidden) to (logits,
  new_hidden), and a loss-computation call (logits, targets) to (cross_entropy,
  center_loss); exposes trainable parameters for clipping/update". The model is a
  mutable object, so the call \<^verbatim>\<open>model(data, hidden)\<close> is two fields: \<open>forward\<close>, the
  pair it returns, and \<open>forward_state\<close>, the model object as the call leaves it; nothing
  is assumed of either. The two loss calls return values; \<open>backward\<close> gives the
  parameters as the calls of lines 135-145, up to \<^verbatim>\<open>train_loss.backward()\<close>, leave
  them, with their gradients populated; \<open>clip_grad_norm\<close> is the library's in-place
  clipping of the gradients.
\<close>

record ('v, 'o) rnn_model =
  init_hidden :: "nat \<Rightarrow> 'v hidden"
  forward :: "'v model_state \<Rightarrow> nat list list \<Rightarrow> 'v hidden \<Rightarrow> 'o \<times> 'v hidden"
  forward_state :: "'v model_state \<Rightarrow> nat list list \<Rightarrow> 'v hidden \<Rightarrow> 'v model_state"
  criterion :: "'o \<Rightarrow> nat list \<Rightarrow> real"
  calculate_loss_values :: "'v model_state \<Rightarrow> 'o \<Rightarrow> nat list \<Rightarrow> real \<times> real"
  backward :: "'v model_state \<Rightarrow> nat list list \<Rightarrow> 'v hidden \<Rightarrow> nat list \<Rightarrow> real
                 \<Rightarrow> 'v param list"
  clip_grad_norm :: "'v param list \<Rightarrow> real \<Rightarrow> 'v param list"

text \<open>
  \<^verbatim>\<open>model.zero_grad()\<close>: every gradient that exists is overwritten with zeros.
\<close>

definition zero_grad :: "'v::zero param list \<Rightarrow> 'v param list" where
  "zero_grad ps = map (\<lambda>p. p\<lparr>pgrad := map_option (\<lambda>g. 0) (pgrad p)\<rparr>) ps"

subsection \<open>Evaluation loop (lines 101-114)\<close>

text \<open>
  \<^verbatim>\<open>total_loss\<close> starts as the Python int \<open>0\<close> and becomes a tensor with the
  first \<^verbatim>\<open>+=\<close>; only a tensor can be indexed by \<^verbatim>\<open>total_loss[0]\<close>.
\<close>

datatype total = IntZero | FloatTensor real

fun add_total :: "total \<Rightarrow> real \<Rightarrow> total" where
  "add_total IntZero x = FloatTensor x"
| "add_total (FloatTensor s) x = FloatTensor (s + x)"

text \<open>
  The loop of lines 108-113 over the offsets still to visit. It carries the model object,
  which every forward call may change, the hidden state and the running total.
\<close>

fun evaluate_loop ::
  "('v, 'o) rnn_model \<Rightarrow> int \<Rightarrow> 'v model_state \<Rightarrow> nat list list \<Rightarrow> 'v hidden \<Rightarrow> total
     \<Rightarrow> int list \<Rightarrow> 'v model_state \<times> total" where
  "evaluate_loop net bptt_len m data_source hidden total_loss [] = (m, total_loss)"
| "evaluate_loop net bptt_len m data_source hidden total_loss (i # is) =
     (case get_batch bptt_len data_source i of (data, targets) \<Rightarrow>
     (case forward net m data hidden of (output, hidden1) \<Rightarrow>
        evaluate_loop net bptt_len (forward_state net m data hidden) data_source
          (repackage_hidden hidden1)
          (add_total total_loss (real (length data) * criterion net output targets)) is))"

text \<open>
  \<^verbatim>\<open>evaluate(data_source)\<close> returns the model object as the call leaves it together
  with the loss or the exception raised.
\<close>

definition evaluate ::
  "('v, 'o) rnn_model \<Rightarrow> args \<Rightarrow> 'v model_state \<Rightarrow> nat list list
     \<Rightarrow> 'v model_state \<times> (error + real)" where
  "evaluate net a m data_source =
     (let m1 = m\<lparr>training := False\<rparr>;
          hidden = init_hidden net eval_batch_size
      in (case window_offsets (bptt a) data_source of
            Inl e \<Rightarrow> (m1, Inl e)
          | Inr is \<Rightarrow>
              (case evaluate_loop net (bptt a) m1 data_source hidden IntZero is of
                 (m2, IntZero) \<Rightarrow> (m2, Inl TypeError)
               | (m2, FloatTensor s) \<Rightarrow>
                   if length data_source = 0 then (m2, Inl ZeroDivisionError)
                   else (m2, Inr (s / real (length data_source))))))"

text \<open>
  The per-window measurements of one evaluation pass, in order: the window length
  \<^verbatim>\<open>len(data)\<close> and the cross-entropy of the window.
\<close>

fun window_losses ::
  "('v, 'o) rnn_model \<Rightarrow> int \<Rightarrow> 'v model_state \<Rightarrow> nat list list \<Rightarrow> 'v hidden
     \<Rightarrow> int list \<Rightarrow> (nat \<times> real) list" where
  "window_losses net bptt_len m data_source hidden [] = []"
| "window_losses net bptt_len m data_source hidden (i # is) =
     (case get_batch bptt_len data_source i of (data, targets) \<Rightarrow>
     (case forward net m data hidden of (output, hidden1) \<Rightarrow>
        (length data, criterion net output targets) #
          window_losses net bptt_len (forward_state net m data hidden) data_source
            (repackage_hidden hidden1) is))"

subsection \<open>Training loop (lines 121-175)\<close>

text \<open>
  The manual update of lines 157-159: a parameter that requires gradients gets
  \<^verbatim>\<open>p.data.add_(-lr, p.grad.data)\<close>, which raises when \<^verbatim>\<open>p.grad\<close> is
  \<^verbatim>\<open>None\<close>; any other parameter is passed over.
\<close>

fun sgd_update :: "real \<Rightarrow> 'v::real_vector param list \<Rightarrow> error + 'v param list" where
  "sgd_update lr_now [] = Inr []"
| "sgd_update lr_now (p # ps) =
     (if requires_grad p then
        (case pgrad p of
           None \<Rightarrow> Inl AttributeError
         | Some g \<Rightarrow>
             (case sgd_update lr_now ps of
                Inl e \<Rightarrow> Inl e
              | Inr ps1 \<Rightarrow> Inr (p\<lparr>pdata := pdata p + (- lr_now) *\<^sub>R g\<rparr> # ps1)))
      else
        (case sgd_update lr_now ps of
           Inl e \<Rightarrow> Inl e
         | Inr ps1 \<Rightarrow> Inr (p # ps1)))"

text \<open>Lines 156-159: clip, then update.\<close>

definition optimizer_step ::
  "('v::real_vector, 'o) rnn_model \<Rightarrow> args \<Rightarrow> real \<Rightarrow> 'v param list \<Rightarrow> error + 'v param list" where
  "optimizer_step net a lr_now ps = sgd_update lr_now (clip_grad_norm net ps (clip a))"

text \<open>A progress report (the two printed lines of 166-172, without the timing).\<close>

record log_line =
  l_epoch :: nat
  l_batch :: nat
  l_batches :: int
  l_lr :: real
  l_cur_loss :: real
  l_ppl :: real
  l_train_loss :: real
  l_center_loss :: real
  l_cross_entropy :: real
  l_perplexity :: real

record 'v train_state =
  t_model :: "'v model_state"
  t_hidden :: "'v hidden"
  t_total_loss :: real
  t_metrics :: "(real \<times> real \<times> real \<times> real) list"
  t_log :: "log_line list"

text \<open>
  Lines 161-175: add the window's cross-entropy to the running total; on every window
  whose number is a positive multiple of \<open>log_interval\<close> report the total divided by
  \<open>log_interval\<close> and its exponential, and reset the total. The modulo raises on a zero
  interval.
\<close>

definition log_progress ::
  "args \<Rightarrow> nat \<Rightarrow> real \<Rightarrow> nat list list \<Rightarrow> nat \<Rightarrow> real \<times> real \<times> real \<times> real
     \<Rightarrow> real \<Rightarrow> log_line list \<Rightarrow> error + real \<times> log_line list" where
  "log_progress a epoch lr_now source batch vals total_loss lg =
     (case vals of (train_loss_val, center_loss_val, cross_entropy_val, perplexity_val) \<Rightarrow>
        let total1 = total_loss + cross_entropy_val
        in if log_interval a = 0 then Inl ZeroDivisionError
           else if int batch mod log_interval a = 0 \<and> batch > 0 then
             let cur_loss = total1 / real_of_int (log_interval a)
             in Inr (0, lg @ [\<lparr>l_epoch = epoch, l_batch = batch,
                               l_batches = int (length source) div bptt a,
                               l_lr = lr_now, l_cur_loss = cur_loss, l_ppl = exp cur_loss,
                               l_train_loss = train_loss_val,
                               l_center_loss = center_loss_val,
                               l_cross_entropy = cross_entropy_val,
                               l_perplexity = perplexity_val\<rparr>])
           else Inr (total1, lg))"

text \<open>
  Lines 130-153 of the loop body at offset \<open>i\<close>: fetch the window, detach the hidden
  state, zero the gradients, run the forward pass, compute the losses and run the
  backward pass. It yields the model the passes ran on, the new hidden state, the four
  values recorded as metrics and the parameters as the backward pass leaves them.
\<close>

definition forward_backward ::
  "('v::real_vector, 'o) rnn_model \<Rightarrow> args \<Rightarrow> nat list list \<Rightarrow> 'v train_state \<Rightarrow> int
     \<Rightarrow> 'v model_state \<times> 'v hidden \<times> (real \<times> real \<times> real \<times> real) \<times> 'v param list" where
  "forward_backward net a source s i =
     (case get_batch (bptt a) source i of (data, targets) \<Rightarrow>
        (let hidden = repackage_hidden (t_hidden s);
             m0 = (t_model s)\<lparr>params := zero_grad (params (t_model s))\<rparr>
         in (case forward net m0 data hidden of (logits, hidden1) \<Rightarrow>
            (case calculate_loss_values net m0 logits targets of
               (cross_entropy_val, center_loss_val) \<Rightarrow>
                 (let center_loss_factor = LAMBDA a;
                      train_loss_val =
                        (if center_loss_factor > 0
                         then cross_entropy_val + center_loss_factor * center_loss_val
                         else cross_entropy_val);
                      ps1 = backward net m0 data hidden targets center_loss_factor;
                      perplexity_val = exp cross_entropy_val
                  in (m0, hidden1,
                      (train_loss_val, center_loss_val, cross_entropy_val, perplexity_val),
                      ps1))))))"

text \<open>
  One pass of the loop body, lines 130-175, for window number \<open>batch\<close> at offset \<open>i\<close>:
  forward and backward pass, optimizer step, logging.
\<close>

definition train_window ::
  "('v::real_vector, 'o) rnn_model \<Rightarrow> args \<Rightarrow> nat \<Rightarrow> real \<Rightarrow> nat list list \<Rightarrow> 'v train_state
     \<Rightarrow> nat \<times> int \<Rightarrow> error + 'v train_state" where
  "train_window net a epoch lr_now source s bi =
     (case bi of (batch, i) \<Rightarrow>
     (case forward_backward net a source s i of (m0, hidden1, vals, ps1) \<Rightarrow>
        (case optimizer_step net a lr_now ps1 of
           Inl e \<Rightarrow> Inl e
         | Inr ps2 \<Rightarrow>
             (case log_progress a epoch lr_now source batch vals
                     (t_total_loss s) (t_log s) of
                Inl e \<Rightarrow> Inl e
              | Inr (total1, lg1) \<Rightarrow>
                  Inr \<lparr>t_model = m0\<lparr>params := ps2\<rparr>, t_hidden = hidden1,
                       t_total_loss = total1,
                       t_metrics = t_metrics s @ [vals],
                       t_log = lg1\<rparr>))))"

fun train_loop ::
  "('v::real_vector, 'o) rnn_model \<Rightarrow> args \<Rightarrow> nat \<Rightarrow> real \<Rightarrow> nat list list \<Rightarrow> 'v train_state
     \<Rightarrow> (nat \<times> int) list \<Rightarrow> error + 'v train_state" where
  "train_loop net a epoch lr_now source s [] = Inr s"
| "train_loop net a epoch lr_now source s (bi # bis) =
     (case train_window net a epoch lr_now source s bi of
        Inl e \<Rightarrow> Inl e
      | Inr s1 \<Rightarrow> train_loop net a epoch lr_now source s1 bis)"

text \<open>
  \<^verbatim>\<open>train()\<close>, given the epoch number and the learning rate it reads from the
  globals, the metrics and the console log so far.
\<close>

definition train ::
  "('v::real_vector, 'o) rnn_model \<Rightarrow> args \<Rightarrow> nat \<Rightarrow> real \<Rightarrow> nat list list \<Rightarrow> 'v model_state
     \<Rightarrow> (real \<times> real \<times> real \<times> real) list \<Rightarrow> log_line list \<Rightarrow> error + 'v train_state" where
  "train net a epoch lr_now source m metrics lg =
     (case window_offsets (bptt a) source of
        Inl e \<Rightarrow> Inl e
      | Inr is \<Rightarrow>
          train_loop net a epoch lr_now source
            \<lparr>t_model = m\<lparr>training := True\<rparr>, t_hidden = init_hidden net (batch_size a),
             t_total_loss = 0, t_metrics = metrics, t_log = lg\<rparr>
            (enumerate 0 is))"

subsection \<open>Epoch controller (lines 177-228)\<close>

text \<open>
  The script's globals: the model, the learning rate, the best validation loss, the
  checkpoint file \<^verbatim>\<open>model.pt\<close> (absent until first written: the result directory
  is created fresh at start-up) and, as a trace of the writes to that file, the epochs
  after which it was written.
\<close>

record 'v ctl =
  model :: "'v model_state"
  lr :: real
  best_val_loss :: "real option"
  model_pt :: "'v model_state option"
  ckpt_epochs :: "nat list"
  eval_metrics :: "(real \<times> real) list"
  metrics :: "(real \<times> real \<times> real \<times> real) list"
  console :: "log_line list"

text \<open>
  Python's \<^verbatim>\<open>not best_val_loss\<close>: true of \<^verbatim>\<open>None\<close> and of the float \<open>0.0\<close>.
\<close>

definition py_not :: "real option \<Rightarrow> bool" where
  "py_not x = (case x of None \<Rightarrow> True | Some v \<Rightarrow> v = 0)"

text \<open>Lines 196-202.\<close>

definition end_of_epoch :: "nat \<Rightarrow> real \<Rightarrow> 'v ctl \<Rightarrow> 'v ctl" where
  "end_of_epoch epoch val_loss c =
     (if py_not (best_val_loss c) \<or>
         (case best_val_loss c of None \<Rightarrow> False | Some b \<Rightarrow> val_loss < b)
      then c\<lparr>model_pt := Some (model c), best_val_loss := Some val_loss,
             ckpt_epochs := ckpt_epochs c @ [epoch]\<rparr>
      else c\<lparr>lr := lr c / 4\<rparr>)"

text \<open>
  The body of the \<^verbatim>\<open>try\<close> block, lines 183-207. (\<^verbatim>\<open>math.exp\<close> overflows on a
  loss above about 709.78 and raises; the exponential of the model is total, losses of
  that size are outside the model.) \<open>run\<close> is one epoch's
  \<^verbatim>\<open>train()\<close> followed by \<^verbatim>\<open>evaluate(val_data)\<close>; it returns the trained model,
  the metrics, the log and the validation loss, or the exception raised, a
  \<^verbatim>\<open>KeyboardInterrupt\<close> among them. The handler of line 209 ends the loop on an
  interruption; any other exception leaves the program. The tables written to disk at
  lines 204-207 and 225-228 are not modelled.
\<close>

fun epoch_loop ::
  "(nat \<Rightarrow> 'v ctl \<Rightarrow> error + 'v ctl \<times> real) \<Rightarrow> nat list \<Rightarrow> 'v ctl \<Rightarrow> error + 'v ctl" where
  "epoch_loop run [] c = Inr c"
| "epoch_loop run (epoch # rest) c =
     (case run epoch c of
        Inl e \<Rightarrow> if e = KeyboardInterrupt then Inr c else Inl e
      | Inr (c1, val_loss) \<Rightarrow>
          epoch_loop run rest
            (end_of_epoch epoch val_loss
               (c1\<lparr>eval_metrics := eval_metrics c1 @ [(val_loss, exp val_loss)]\<rparr>)))"

text \<open>
  Lines 185-186 on the real model. The user's Ctrl-C is an input: \<open>interrupt\<close> names
  the epoch during which it arrives, if any.
\<close>

definition run_epoch ::
  "('v::real_vector, 'o) rnn_model \<Rightarrow> args \<Rightarrow> nat list list \<Rightarrow> nat list list \<Rightarrow> nat option
     \<Rightarrow> nat \<Rightarrow> 'v ctl \<Rightarrow> error + 'v ctl \<times> real" where
  "run_epoch net a train_grid val_grid interrupt epoch c =
     (if interrupt = Some epoch then Inl KeyboardInterrupt
      else
        (case train net a epoch (lr c) train_grid (model c) (metrics c) (console c) of
           Inl e \<Rightarrow> Inl e
         | Inr s \<Rightarrow>
             (case evaluate net a (t_model s) val_grid of
                (m1, Inl e) \<Rightarrow> Inl e
              | (m1, Inr val_loss) \<Rightarrow>
                  Inr (c\<lparr>model := m1, metrics := t_metrics s, console := t_log s\<rparr>,
                       val_loss))))"

text \<open>
  Lines 213-218: open the checkpoint file, which raises when it was never written, load
  the model from it and evaluate the test stream.
\<close>

definition final_evaluation ::
  "('v, 'o) rnn_model \<Rightarrow> args \<Rightarrow> nat list list \<Rightarrow> 'v ctl \<Rightarrow> error + real" where
  "final_evaluation net a test_grid c =
     (case model_pt c of
        None \<Rightarrow> Inl FileNotFoundError
      | Some m \<Rightarrow> snd (evaluate net a m test_grid))"

text \<open>The globals as line 178 finds them.\<close>

definition initial_ctl :: "args \<Rightarrow> 'v model_state \<Rightarrow> 'v ctl" where
  "initial_ctl a m =
     \<lparr>model = m, lr = lr_arg a, best_val_loss = None, model_pt = None,
      ckpt_epochs = [], eval_metrics = [], metrics = [], console = []\<rparr>"

text \<open>The controller from line 178 on, over any epoch runner.\<close>

definition controller ::
  "('v, 'o) rnn_model \<Rightarrow> args \<Rightarrow> (nat \<Rightarrow> 'v ctl \<Rightarrow> error + 'v ctl \<times> real) \<Rightarrow> nat list list
     \<Rightarrow> 'v model_state \<Rightarrow> error + real" where
  "controller net a run test_grid m =
     (case epoch_loop run [1..<epochs a + 1] (initial_ctl a m) of
        Inl e \<Rightarrow> Inl e
      | Inr c \<Rightarrow> final_evaluation net a test_grid c)"

text \<open>The whole script from line 54 on.\<close>

definition main ::
  "('v::real_vector, 'o) rnn_model \<Rightarrow> args \<Rightarrow> corpus \<Rightarrow> nat option \<Rightarrow> 'v model_state
     \<Rightarrow> error + real" where
  "main net a corp interrupt m =
     (case train_data a corp of
        Inl e \<Rightarrow> Inl e
      | Inr train_grid \<Rightarrow>
          (case val_data a corp of
             Inl e \<Rightarrow> Inl e
           | Inr val_grid \<Rightarrow>
               (case test_data a corp of
                  Inl e \<Rightarrow> Inl e
                | Inr test_grid \<Rightarrow>
                    controller net a (run_epoch net a train_grid val_grid interrupt)
                      test_grid m)))"

subsection \<open>Concrete collaborators\<close>

text \<open>
  A small model to run the script on concrete inputs: one real number per tensor, a
  forward pass that hands its input on as the output and leaves the model as it is,
  losses that are the sum of the target ids, a backward pass that gives every parameter
  requiring gradients the gradient 1, and a clipping that changes nothing.
\<close>

definition demo_net :: "(real, nat list list) rnn_model" where
  "demo_net =
     \<lparr>init_hidden = (\<lambda>n. Variable 0 False),
      forward = (\<lambda>m x h. (x, h)),
      forward_state = (\<lambda>m x h. m),
      criterion = (\<lambda>out targets. real (sum_list targets)),
      calculate_loss_values = (\<lambda>m out targets. (real (sum_list targets), 0)),
      backward = (\<lambda>m x h targets factor.
                    map (\<lambda>p. if requires_grad p then p\<lparr>pgrad := Some 1\<rparr> else p) (params m)),
      clip_grad_norm = (\<lambda>ps c. ps)\<rparr>"

text \<open>
  A model that shows its hidden state: \<^verbatim>\<open>init_hidden(n)\<close> holds the number \<open>n\<close>, the
  forward pass returns the hidden state it was given as its output, and the loss of a
  window is the number held by that output.
\<close>

definition probe_net :: "(real, real hidden) rnn_model" where
  "probe_net =
     \<lparr>init_hidden = (\<lambda>n. Variable (real n) False),
      forward = (\<lambda>m x h. (h, h)),
      forward_state = (\<lambda>m x h. m),
      criterion = (\<lambda>out targets. case out of Variable d hist \<Rightarrow> d | Tuple hs \<Rightarrow> 0),
      calculate_loss_values = (\<lambda>m out targets. (0, 0)),
      backward = (\<lambda>m x h targets factor. params m),
      clip_grad_norm = (\<lambda>ps c. ps)\<rparr>"


text \<open>
  An epoch runner that replays a given sequence of validation losses, one per epoch, and
  is interrupted by the user once the sequence is used up.
\<close>

definition scripted_run :: "real list \<Rightarrow> nat \<Rightarrow> 'v ctl \<Rightarrow> error + 'v ctl \<times> real" where
  "scripted_run val_losses epoch c =
     (if 0 < epoch \<and> epoch - 1 < length val_losses
      then Inr (c, val_losses ! (epoch - 1))
      else Inl KeyboardInterrupt)"

section \<open>Properties\<close>

subsection \<open>Batchifier\<close>

lemma take_drop_map_nth:
  "a + l \<le> length xs \<Longrightarrow> take l (drop a xs) = map (\<lambda>k. xs ! (a + k)) [0..<l]"
  by (rule nth_equalityI) auto

lemma view_rows_length: "length (view_rows bsz xs) = bsz"
  by (simp add: view_rows_def Let_def)

lemma view_rows_nth:
  assumes "c < bsz" "length xs = nbatch * bsz"
  shows "view_rows bsz xs ! c = map (\<lambda>r. xs ! (c * nbatch + r)) [0..<nbatch]"
proof -
  have w: "length xs div bsz = nbatch" using assms by simp
  have "c * nbatch + nbatch \<le> nbatch * bsz"
  proof -
    have "Suc c * nbatch \<le> bsz * nbatch" using assms(1) by (intro mult_le_mono1) simp
    then show ?thesis by (simp add: mult.commute)
  qed
  then have "take nbatch (drop (c * nbatch) xs) = map (\<lambda>r. xs ! (c * nbatch + r)) [0..<nbatch]"
    using assms(2) by (intro take_drop_map_nth) simp
  then show ?thesis using assms(1) by (simp add: view_rows_def Let_def w)
qed

lemma t_grid_rect:
  assumes "m \<noteq> []" "\<forall>row \<in> set m. length row = w"
  shows "t_grid m = map (\<lambda>r. map (\<lambda>row. row ! r) m) [0..<w]"
  using assms by (cases m) (simp_all add: t_grid_def)

lemma batchify_grid:
  assumes "0 < bsz"
  shows "batchify data bsz =
           Inr (map (\<lambda>r. map (\<lambda>c. data ! (c * (length data div bsz) + r)) [0..<bsz])
                  [0..<length data div bsz])"
proof -
  define nbatch where "nbatch = length data div bsz"
  define d where "d = narrow data 0 (nbatch * bsz)"
  have le: "nbatch * bsz \<le> length data" by (simp add: nbatch_def)
  have dlen: "length d = nbatch * bsz" using le by (simp add: d_def narrow_def)
  have dnth: "\<And>k. k < nbatch * bsz \<Longrightarrow> d ! k = data ! k" by (simp add: d_def narrow_def)
  have rows: "\<And>c. c < bsz \<Longrightarrow> view_rows bsz d ! c = map (\<lambda>r. d ! (c * nbatch + r)) [0..<nbatch]"
    using view_rows_nth [OF _ dlen] by blast
  have ne: "view_rows bsz d \<noteq> []" using assms view_rows_length [of bsz d] by auto
  have rect: "\<forall>row \<in> set (view_rows bsz d). length row = nbatch"
    using rows by (auto simp: in_set_conv_nth view_rows_length)
  have bound: "\<And>c r. c < bsz \<Longrightarrow> r < nbatch \<Longrightarrow> c * nbatch + r < nbatch * bsz"
  proof -
    fix c r assume "c < bsz" "r < nbatch"
    then have "c * nbatch + r < Suc c * nbatch" by simp
    also have "\<dots> \<le> bsz * nbatch" using \<open>c < bsz\<close> by (intro mult_le_mono1) simp
    finally show "c * nbatch + r < nbatch * bsz" by (simp add: mult.commute)
  qed
  have "t_grid (view_rows bsz d) = map (\<lambda>r. map (\<lambda>row. row ! r) (view_rows bsz d)) [0..<nbatch]"
    by (rule t_grid_rect [OF ne rect])
  also have "\<dots> = map (\<lambda>r. map (\<lambda>c. data ! (c * nbatch + r)) [0..<bsz]) [0..<nbatch]"
  proof (rule map_cong [OF refl], rule nth_equalityI)
    fix r assume "r \<in> set [0..<nbatch]"
    show "length (map (\<lambda>row. row ! r) (view_rows bsz d)) = length (map (\<lambda>c. data ! (c * nbatch + r)) [0..<bsz])"
      by (simp add: view_rows_length)
  next
    fix r c assume r: "r \<in> set [0..<nbatch]" and "c < length (map (\<lambda>row. row ! r) (view_rows bsz d))"
    then have c: "c < bsz" and r': "r < nbatch" by (simp_all add: view_rows_length)
    show "map (\<lambda>row. row ! r) (view_rows bsz d) ! c = map (\<lambda>c. data ! (c * nbatch + r)) [0..<bsz] ! c"
      using c r' rows [OF c] dnth [OF bound [OF c r']] by (simp add: view_rows_length)
  qed
  finally show ?thesis using assms by (simp add: batchify_def Let_def nbatch_def d_def)
qed


lemma batchify_rows:
  assumes "batchify data bsz = Inr g"
  shows "0 < bsz \<and> length g = length data div bsz \<and> (\<forall>row \<in> set g. length row = bsz)"
proof -
  have pos: "0 < bsz" using assms by (cases "bsz = 0") (simp_all add: batchify_def)
  from batchify_grid [OF pos, of data] assms
  have "g = map (\<lambda>r. map (\<lambda>c. data ! (c * (length data div bsz) + r)) [0..<bsz])
                  [0..<length data div bsz]" by simp
  then show ?thesis using pos by auto
qed

text \<open>
  Claim C2, as amended. For a stream of length \<open>N\<close> and a stream count \<open>B\<close> with
  \<open>N \<ge> B \<ge> 1\<close>, \<^verbatim>\<open>batchify\<close> returns a grid of \<open>N div B\<close> rows (at least one),
  each of \<open>B\<close> columns; the cell in row \<open>r\<close> and column \<open>c\<close> is the token at index
  \<open>c * (N div B) + r\<close>, which lies below \<open>B * (N div B)\<close>; and the grid is the one
  obtained from the first \<open>B * (N div B)\<close> tokens alone, so that no later token reaches
  the output.
\<close>

theorem batchify_shape:
  assumes "0 < B" and "B \<le> length data"
  shows "\<exists>g. batchify data B = Inr g \<and> length g = length data div B \<and> 0 < length g \<and>
           (\<forall>r < length g. length (g ! r) = B \<and>
              (\<forall>c < B. c * (length data div B) + r < B * (length data div B) \<and>
                        g ! r ! c = data ! (c * (length data div B) + r))) \<and>
           batchify (take (B * (length data div B)) data) B = Inr g"
proof -
  define nb where "nb = length data div B"
  define g where "g = map (\<lambda>r. map (\<lambda>c. data ! (c * nb + r)) [0..<B]) [0..<nb]"
  have eq: "batchify data B = Inr g"
    unfolding g_def nb_def by (rule batchify_grid [OF assms(1)])
  have len: "length g = nb" by (simp add: g_def)
  have nbpos: "0 < nb" using assms by (simp add: nb_def div_greater_zero_iff)
  have bound: "c * nb + r < B * nb" if "c < B" "r < nb" for c r
  proof -
    have "c * nb + r < Suc c * nb" using that by simp
    also have "\<dots> \<le> B * nb" using that by (intro mult_le_mono1) simp
    finally show ?thesis .
  qed
  have le: "B * nb \<le> length data" by (simp add: nb_def)
  have "length (take (B * nb) data) = B * nb" using le by simp
  then have len': "length (take (B * nb) data) div B = nb" using assms(1) by simp
  have pre0: "batchify (take (B * nb) data) B =
          Inr (map (\<lambda>r. map (\<lambda>c. take (B * nb) data ! (c * nb + r)) [0..<B]) [0..<nb])"
    using batchify_grid [OF assms(1), of "take (B * nb) data"] by (simp only: len')
  have same: "map (\<lambda>r. map (\<lambda>c. take (B * nb) data ! (c * nb + r)) [0..<B]) [0..<nb] = g"
    unfolding g_def
  proof (rule map_cong [OF refl], rule map_cong [OF refl])
    fix r c assume "r \<in> set [0..<nb]" "c \<in> set [0..<B]"
    then have "c * nb + r < B * nb" using bound by simp
    then show "take (B * nb) data ! (c * nb + r) = data ! (c * nb + r)" by (rule nth_take)
  qed
  have pre: "batchify (take (B * nb) data) B = Inr g" using pre0 same by (simp only:)
  have cells: "length (g ! r) = B \<and>
              (\<forall>c < B. c * nb + r < B * nb \<and> g ! r ! c = data ! (c * nb + r))"
    if "r < length g" for r
  proof -
    from that have r: "r < nb" by (simp add: len)
    then have row: "g ! r = map (\<lambda>c. data ! (c * nb + r)) [0..<B]" by (simp add: g_def)
    show ?thesis unfolding row using bound [OF _ r] by simp
  qed
  have "batchify data B = Inr g \<and> length g = nb \<and> 0 < length g \<and>
           (\<forall>r < length g. length (g ! r) = B \<and>
              (\<forall>c < B. c * nb + r < B * nb \<and> g ! r ! c = data ! (c * nb + r))) \<and>
           batchify (take (B * nb) data) B = Inr g"
    using eq len nbpos cells pre by (intro conjI allI impI) simp_all
  then show ?thesis unfolding nb_def by (rule exI)
qed

theorem batchify_shape_witness:
  "(0::nat) < 3 \<and> 3 \<le> length [1, 2, 3, 4, 5, 6, 7 :: nat] \<and>
   (\<exists>g. batchify [1, 2, 3, 4, 5, 6, 7 :: nat] 3 = Inr g \<and> length g = 2 \<and> 0 < length g) \<and>
   batchify [1, 2, 3, 4, 5, 6, 7 :: nat] 3 = Inr [[1, 3, 5], [2, 4, 6]]"
proof -
  have h1: "(0::nat) < 3" by simp
  have h2: "3 \<le> length [1, 2, 3, 4, 5, 6, 7 :: nat]" by simp
  have d: "length [1, 2, 3, 4, 5, 6, 7 :: nat] div 3 = 2" by simp
  from batchify_shape [OF h1 h2] obtain g where
    g: "batchify [1, 2, 3, 4, 5, 6, 7 :: nat] 3 = Inr g"
       "length g = length [1, 2, 3, 4, 5, 6, 7 :: nat] div 3" "0 < length g"
    by blast
  from g(2) d have "length g = 2" by (simp only:)
  with g have ex: "\<exists>g. batchify [1, 2, 3, 4, 5, 6, 7 :: nat] 3 = Inr g \<and> length g = 2 \<and> 0 < length g"
    by blast
  have v: "batchify [1, 2, 3, 4, 5, 6, 7 :: nat] 3 = Inr [[1, 3, 5], [2, 4, 6]]"
    by code_simp
  from h1 h2 ex v show ?thesis by (intro conjI)
qed

text \<open>
  The claim as first stated admits the stream count \<open>0\<close> (\<open>N \<ge> 0\<close> holds of every
  stream); there the floor division of line 58 raises and no grid is returned.
\<close>

theorem batchify_zero_streams:
  "(0::nat) \<le> length [1, 2, 3 :: nat] \<and> batchify [1, 2, 3 :: nat] 0 = Inl ZeroDivisionError"
  by (simp add: batchify_def)

subsection \<open>Window sampler\<close>

lemma le_div_imp_mult_le:
  assumes "0 < (b::int)" "k + 1 \<le> a div b"
  shows "(k + 1) * b \<le> a"
proof -
  have "0 \<le> a mod b" using assms(1) by simp
  moreover have "a div b * b + a mod b = a" by simp
  ultimately have "a div b * b \<le> a" by linarith
  moreover have "(k + 1) * b \<le> a div b * b"
    using assms by (intro mult_right_mono) simp_all
  ultimately show ?thesis by linarith
qed

lemma div_less_imp_nonpos: "0 < (m::int) \<Longrightarrow> x < m \<Longrightarrow> x div m \<le> 0"
  by (metis div_pos_pos_trivial nle_le pos_imp_zdiv_nonneg_iff)

lemma window_offsets_pos:
  assumes "0 < b"
  shows "window_offsets b src =
           Inr (map (\<lambda>k. int k * b) [0..<nat ((int (length src) - 1 + b - 1) div b)])"
  using assms by (simp add: window_offsets_def py_range_def)

lemma window_offsets_neg:
  assumes "b < 0" "src \<noteq> []"
  shows "window_offsets b src = Inr []"
proof -
  have n: "1 \<le> int (length src)" using assms(2) by (cases src) simp_all
  have "0 - (int (length src) - 1) - b - 1 < - b" using n by linarith
  moreover have "0 < - b" using assms(1) by linarith
  ultimately have "(0 - (int (length src) - 1) - b - 1) div (- b) \<le> 0"
    by (rule div_less_imp_nonpos [rotated])
  then have "nat ((0 - (int (length src) - 1) - b - 1) div (- b)) = 0" by linarith
  then show ?thesis using assms(1) unfolding window_offsets_def py_range_def by simp
qed

lemma window_offsets_zero: "window_offsets 0 src = Inl ValueError"
  by (simp add: window_offsets_def py_range_def)

lemma offsets_in_range:
  assumes "window_offsets b src = Inr is" "i \<in> set is" "src \<noteq> []"
  shows "0 < b \<and> 0 \<le> i \<and> i < int (length src) - 1"
proof -
  have b0: "b \<noteq> 0" using assms(1) window_offsets_zero [of src] by auto
  have notneg: "\<not> b < 0" using assms window_offsets_neg [of b src] by auto
  from b0 notneg have pos: "0 < b" by linarith
  define a where "a = int (length src) - 1 + b - 1"
  from assms(1) window_offsets_pos [OF pos, of src]
  have "is = map (\<lambda>k. int k * b) [0..<nat (a div b)]" by (simp add: a_def)
  with assms(2) have "i \<in> (\<lambda>k. int k * b) ` set [0..<nat (a div b)]"
    by (simp only: set_map)
  then obtain k where k: "i = int k * b" "k \<in> set [0..<nat (a div b)]"
    by (rule imageE)
  from k(2) have klt: "k < nat (a div b)" by simp
  from klt have "int k + 1 \<le> a div b" by linarith
  with pos have "(int k + 1) * b \<le> a" by (rule le_div_imp_mult_le)
  then have "int k * b + b \<le> a" by (simp only: distrib_right mult_1)
  then have lt: "int k * b < int (length src) - 1" unfolding a_def by linarith
  have "0 \<le> int k * b" using pos by simp
  with lt pos show ?thesis unfolding k(1) by blast
qed

lemma py_slice_window:
  assumes "0 \<le> i" "0 \<le> L" "i + L \<le> int (length xs)"
  shows "py_slice xs i (i + L) = map (\<lambda>k. xs ! (nat i + k)) [0..<nat L]"
proof -
  have a: "slice_index (length xs) i = nat i" using assms by (simp add: slice_index_def)
  have b: "slice_index (length xs) (i + L) = nat i + nat L"
    using assms by (simp add: slice_index_def nat_add_distrib)
  have "take (nat L) (drop (nat i) xs) = map (\<lambda>k. xs ! (nat i + k)) [0..<nat L]"
    using assms by (intro take_drop_map_nth) linarith
  then show ?thesis by (simp add: py_slice_def Let_def a b)
qed

lemma py_slice_Nil: "py_slice [] lo hi = []"
  by (simp add: py_slice_def Let_def)

lemma length_concat_uniform:
  assumes "\<forall>row \<in> set xss. length row = w"
  shows "length (concat xss) = length xss * w"
  using assms by (induction xss) simp_all


lemma window_offsets_empty_grid:
  assumes "window_offsets b ([] :: 'a list list) = Inr is" "i \<in> set is"
  shows "b < 0"
proof -
  have b0: "b \<noteq> 0" using assms(1) window_offsets_zero [of "[] :: 'a list list"] by auto
  have "\<not> 0 < b"
  proof
    assume pos: "0 < b"
    have "b - 2 < b" by simp
    with pos have "(b - 2) div b \<le> 0" by (rule div_less_imp_nonpos)
    then have "nat ((int (length ([] :: 'a list list)) - 1 + b - 1) div b) = 0" by simp
    with window_offsets_pos [OF pos, of "[] :: 'a list list"] assms(1)
    have "is = []" by simp
    with assms(2) show False by simp
  qed
  with b0 show ?thesis by linarith
qed

text \<open>
  Claim C4. On a grid of at least two steps, every offset \<open>i\<close> the training and the
  evaluation loop generate (both iterate over \<open>window_offsets\<close>, that is
  \<^verbatim>\<open>range(0, size(0) - 1, bptt)\<close>) gives a window length
  \<open>L = min(bptt, len(source) - 1 - i)\<close> of at least 1, so \<^verbatim>\<open>get_batch\<close> is never asked
  for a window of length 0 or less; the offset is not negative and the window ends before
  the last step.
\<close>

theorem window_length_positive:
  assumes "2 \<le> length source"
    and "window_offsets bptt_len source = Inr is"
    and "i \<in> set is"
  shows "1 \<le> seq_len bptt_len source i \<and> 0 \<le> i \<and> i + seq_len bptt_len source i \<le> int (length source) - 1"
proof -
  have ne: "source \<noteq> []" using assms(1) by auto
  from offsets_in_range [OF assms(2,3) ne]
  have "0 < bptt_len" "0 \<le> i" "i < int (length source) - 1" by simp_all
  then show ?thesis unfolding seq_len_def by linarith
qed

theorem window_length_positive_witness:
  "2 \<le> length [[1], [2], [3], [4], [5], [6 :: nat]] \<and>
   window_offsets 2 [[1], [2], [3], [4], [5], [6 :: nat]] = Inr [0, 2, 4] \<and>
   4 \<in> set [0, 2, 4 :: int] \<and>
   1 \<le> seq_len 2 [[1], [2], [3], [4], [5], [6 :: nat]] 4 \<and>
   seq_len 2 [[1], [2], [3], [4], [5], [6 :: nat]] 4 = 1"
proof -
  have h1: "2 \<le> length [[1], [2], [3], [4], [5], [6 :: nat]]" by simp
  have h2: "window_offsets 2 [[1], [2], [3], [4], [5], [6 :: nat]] = Inr [0, 2, 4]"
    by (simp add: window_offsets_def py_range_def upt_conv_Cons)
  have h3: "4 \<in> set [0, 2, 4 :: int]" by simp
  have v: "seq_len 2 [[1], [2], [3], [4], [5], [6 :: nat]] 4 = 1" by (simp add: seq_len_def)
  from window_length_positive [OF h1 h2 h3] h1 h2 h3 v show ?thesis by (intro conjI) simp_all
qed

text \<open>
  Claim C3. For a batchified grid and an offset \<open>i\<close> the loops generate, with
  \<open>L = min(bptt, len(source) - 1 - i)\<close>: \<^verbatim>\<open>get_batch\<close> returns the input
  \<open>source[i : i+L]\<close> and the target \<open>source[i+1 : i+1+L]\<close> flattened; the input is the
  rows \<open>i, ..., i+L-1\<close> and the target the rows \<open>i+1, ..., i+L\<close>, each target row the one
  that follows its input row; and input and target hold the same number of positions,
  \<open>L * B\<close>, in every window, the last and shorter one included.
\<close>

theorem get_batch_shift:
  assumes "batchify stream B = Inr source"
    and "window_offsets bptt_len source = Inr is"
    and "i \<in> set is"
  shows "get_batch bptt_len source i =
           (py_slice source i (i + seq_len bptt_len source i),
            concat (py_slice source (i + 1) (i + 1 + seq_len bptt_len source i))) \<and>
         fst (get_batch bptt_len source i) =
           map (\<lambda>k. source ! (nat i + k)) [0..<nat (seq_len bptt_len source i)] \<and>
         snd (get_batch bptt_len source i) =
           concat (map (\<lambda>k. source ! (nat i + k + 1)) [0..<nat (seq_len bptt_len source i)]) \<and>
         length (snd (get_batch bptt_len source i)) =
           length (concat (fst (get_batch bptt_len source i))) \<and>
         length (snd (get_batch bptt_len source i)) = nat (seq_len bptt_len source i) * B"
proof -
  define L where "L = seq_len bptt_len source i"
  have gb: "get_batch bptt_len source i =
              (py_slice source i (i + L), concat (py_slice source (i + 1) (i + 1 + L)))"
    by (simp add: get_batch_def Let_def L_def)
  have rows: "\<forall>row \<in> set source. length row = B"
    using batchify_rows [OF assms(1)] by simp
  have sl: "py_slice source i (i + L) = map (\<lambda>k. source ! (nat i + k)) [0..<nat L] \<and>
            py_slice source (i + 1) (i + 1 + L) = map (\<lambda>k. source ! (nat i + k + 1)) [0..<nat L]"
  proof (cases "source = []")
    case True
    with assms(2,3) have "bptt_len < 0" using window_offsets_empty_grid by blast
    then have "L < 0" unfolding L_def seq_len_def by linarith
    then have "nat L = 0" by simp
    with True show ?thesis by (simp add: py_slice_Nil)
  next
    case False
    from offsets_in_range [OF assms(2,3) False]
    have r: "0 < bptt_len" "0 \<le> i" "i < int (length source) - 1" by simp_all
    then have L: "0 \<le> L" "i + L \<le> int (length source) - 1"
      unfolding L_def seq_len_def by linarith+
    have one: "py_slice source i (i + L) = map (\<lambda>k. source ! (nat i + k)) [0..<nat L]"
      using r(2) L by (intro py_slice_window) linarith+
    have "py_slice source (i + 1) (i + 1 + L) = map (\<lambda>k. source ! (nat (i + 1) + k)) [0..<nat L]"
      using r(2) L by (intro py_slice_window) linarith+
    moreover have "nat (i + 1) = nat i + 1" using r(2) by linarith
    ultimately have two: "py_slice source (i + 1) (i + 1 + L) =
        map (\<lambda>k. source ! (nat i + k + 1)) [0..<nat L]" by (simp add: add.commute add.left_commute)
    from one two show ?thesis ..
  qed
  have sub1: "set (py_slice source i (i + L)) \<subseteq> set source"
    unfolding py_slice_def Let_def by (meson set_take_subset set_drop_subset subset_trans)
  have sub2: "set (py_slice source (i + 1) (i + 1 + L)) \<subseteq> set source"
    unfolding py_slice_def Let_def by (meson set_take_subset set_drop_subset subset_trans)
  have l1: "length (concat (py_slice source i (i + L))) = length (py_slice source i (i + L)) * B"
    using rows sub1 by (intro length_concat_uniform) blast
  have l2: "length (concat (py_slice source (i + 1) (i + 1 + L))) =
              length (py_slice source (i + 1) (i + 1 + L)) * B"
    using rows sub2 by (intro length_concat_uniform) blast
  have n1: "length (py_slice source i (i + L)) = nat L" using sl by simp
  have n2: "length (py_slice source (i + 1) (i + 1 + L)) = nat L" using sl by simp
  have c1: "fst (get_batch bptt_len source i) = map (\<lambda>k. source ! (nat i + k)) [0..<nat L]"
    using gb sl by simp
  have c2: "snd (get_batch bptt_len source i) =
              concat (map (\<lambda>k. source ! (nat i + k + 1)) [0..<nat L])"
    using gb sl by simp
  have c3: "length (snd (get_batch bptt_len source i)) =
              length (concat (fst (get_batch bptt_len source i)))"
    using gb l1 l2 n1 n2 by simp
  have c4: "length (snd (get_batch bptt_len source i)) = nat L * B"
    using gb l2 n2 by simp
  from gb c1 c2 c3 c4 show ?thesis unfolding L_def by (intro conjI)
qed

theorem get_batch_shift_witness:
  "batchify [1, 2, 3, 4, 5, 6, 7, 8, 9, 10, 11 :: nat] 2 =
     Inr [[1, 6], [2, 7], [3, 8], [4, 9], [5, 10]] \<and>
   window_offsets 3 [[1, 6], [2, 7], [3, 8], [4, 9], [5, 10 :: nat]] = Inr [0, 3] \<and>
   3 \<in> set [0, 3 :: int] \<and>
   seq_len 3 [[1, 6], [2, 7], [3, 8], [4, 9], [5, 10 :: nat]] 3 = 1 \<and>
   get_batch 3 [[1, 6], [2, 7], [3, 8], [4, 9], [5, 10 :: nat]] 3 = ([[4, 9]], [5, 10]) \<and>
   get_batch 3 [[1, 6], [2, 7], [3, 8], [4, 9], [5, 10 :: nat]] 0 =
     ([[1, 6], [2, 7], [3, 8]], [2, 7, 3, 8, 4, 9]) \<and>
   length (snd (get_batch 3 [[1, 6], [2, 7], [3, 8], [4, 9], [5, 10 :: nat]] 3)) =
     length (concat (fst (get_batch 3 [[1, 6], [2, 7], [3, 8], [4, 9], [5, 10 :: nat]] 3)))"
proof -
  have h1: "batchify [1, 2, 3, 4, 5, 6, 7, 8, 9, 10, 11 :: nat] 2 =
     Inr [[1, 6], [2, 7], [3, 8], [4, 9], [5, 10]]" by code_simp
  have h2: "window_offsets 3 [[1, 6], [2, 7], [3, 8], [4, 9], [5, 10 :: nat]] = Inr [0, 3]"
    by (simp add: window_offsets_def py_range_def upt_conv_Cons)
  have h3: "3 \<in> set [0, 3 :: int]" by simp
  have v1: "seq_len 3 [[1, 6], [2, 7], [3, 8], [4, 9], [5, 10 :: nat]] 3 = 1"
    by (simp add: seq_len_def)
  have v2: "get_batch 3 [[1, 6], [2, 7], [3, 8], [4, 9], [5, 10 :: nat]] 3 = ([[4, 9]], [5, 10])"
    by (simp add: get_batch_def seq_len_def py_slice_def slice_index_def Let_def)
  have v3: "get_batch 3 [[1, 6], [2, 7], [3, 8], [4, 9], [5, 10 :: nat]] 0 =
     ([[1, 6], [2, 7], [3, 8]], [2, 7, 3, 8, 4, 9])"
    by (simp add: get_batch_def seq_len_def py_slice_def slice_index_def Let_def)
  from get_batch_shift [OF h1 h2 h3]
  have v4: "length (snd (get_batch 3 [[1, 6], [2, 7], [3, 8], [4, 9], [5, 10 :: nat]] 3)) =
     length (concat (fst (get_batch 3 [[1, 6], [2, 7], [3, 8], [4, 9], [5, 10 :: nat]] 3)))"
    by blast
  from h1 h2 h3 v1 v2 v3 v4 show ?thesis by (intro conjI)
qed

subsection \<open>Evaluation loop\<close>

lemma evaluate_loop_tensor:
  "snd (evaluate_loop net b m ds h (FloatTensor s) is) =
     FloatTensor (s + (\<Sum>(l, c) \<leftarrow> window_losses net b m ds h is. real l * c))"
proof (induction "is" arbitrary: m h s)
  case Nil
  show ?case by simp
next
  case (Cons i rest)
  show ?case by (simp add: Cons.IH split: prod.splits)
qed

lemma evaluate_loop_first:
  "snd (evaluate_loop net b m ds h IntZero (i # rest)) =
     FloatTensor (\<Sum>(l, c) \<leftarrow> window_losses net b m ds h (i # rest). real l * c)"
  by (simp add: evaluate_loop_tensor split: prod.splits)

lemma window_offsets_nonempty:
  assumes "2 \<le> length ds" "1 \<le> b"
  shows "\<exists>rest. window_offsets b ds = Inr (0 # rest)"
proof -
  have pos: "0 < b" using assms(2) by linarith
  define n where "n = nat ((int (length ds) - 1 + b - 1) div b)"
  have "b \<le> int (length ds) - 1 + b - 1" using assms(1) by linarith
  with pos have "0 < (int (length ds) - 1 + b - 1) div b" by (simp only: pos_imp_zdiv_pos_iff)
  then have "0 < n" unfolding n_def by linarith
  then have "[0..<n] = 0 # [Suc 0..<n]" by (simp add: upt_conv_Cons)
  then have "map (\<lambda>k. int k * b) [0..<n] = 0 # map (\<lambda>k. int k * b) [Suc 0..<n]" by simp
  with window_offsets_pos [OF pos, of ds] show ?thesis unfolding n_def by simp
qed

lemma window_losses_lengths:
  "map fst (window_losses net b m ds h is) = map (\<lambda>i. length (fst (get_batch b ds i))) is"
  by (induction "is" arbitrary: m h) (simp_all split: prod.splits)

lemma get_batch_length:
  assumes "0 < b" "0 \<le> i" "i < int (length ds) - 1"
  shows "int (length (fst (get_batch b ds i))) = min b (int (length ds) - 1 - i)"
proof -
  define L where "L = seq_len b ds i"
  have L: "0 \<le> L" "i + L \<le> int (length ds)" "L = min b (int (length ds) - 1 - i)"
    using assms unfolding L_def seq_len_def by linarith+
  have "py_slice ds i (i + L) = map (\<lambda>k. ds ! (nat i + k)) [0..<nat L]"
    using assms(2) L(1,2) by (rule py_slice_window)
  then have "length (fst (get_batch b ds i)) = nat L"
    by (simp add: get_batch_def Let_def L_def)
  with L(1,3) show ?thesis by linarith
qed

lemma full_windows_sum:
  assumes "0 < (b::int)" "0 \<le> M" "j \<le> nat ((M + b - 1) div b)"
  shows "(\<Sum>k\<leftarrow>[0..<j]. min b (M - int k * b)) = min (int j * b) M"
  using assms(3)
proof (induction j)
  case 0
  show ?case using assms(2) by simp
next
  case (Suc j)
  then have IH: "(\<Sum>k\<leftarrow>[0..<j]. min b (M - int k * b)) = min (int j * b) M" by simp
  from Suc.prems have "int j + 1 \<le> (M + b - 1) div b" by linarith
  with assms(1) have "(int j + 1) * b \<le> M + b - 1" by (rule le_div_imp_mult_le)
  then have "int j * b + b \<le> M + b - 1" by (simp only: distrib_right mult_1)
  then have lt: "int j * b < M" by linarith
  have "(\<Sum>k\<leftarrow>[0..<Suc j]. min b (M - int k * b)) =
          min (int j * b) M + min b (M - int j * b)"
    by (simp add: IH)
  also have "\<dots> = min (int j * b + b) M" using lt by linarith
  also have "int j * b + b = int (Suc j) * b" by (simp add: distrib_right)
  finally show ?case .
qed

lemma all_windows_sum:
  assumes "0 < (b::int)" "0 \<le> M"
  shows "(\<Sum>k\<leftarrow>[0..<nat ((M + b - 1) div b)]. min b (M - int k * b)) = M"
proof -
  define c where "c = (M + b - 1) div b"
  have c0: "0 \<le> c" unfolding c_def using assms by (simp add: pos_imp_zdiv_nonneg_iff)
  have "(M + b - 1) mod b < b" using assms(1) by simp
  moreover have "c * b + (M + b - 1) mod b = M + b - 1" unfolding c_def by simp
  ultimately have "M \<le> c * b" by linarith
  then have "min (int (nat c) * b) M = M" using c0 by simp
  with full_windows_sum [OF assms, of "nat c"] show ?thesis unfolding c_def by simp
qed

lemma int_sum_list_nat: "int (sum_list xs) = sum_list (map int xs)"
  by (induction xs) simp_all

lemma window_lengths_total:
  assumes "1 \<le> length ds" "1 \<le> b" "window_offsets b ds = Inr is"
  shows "sum_list (map fst (window_losses net b m ds h is)) = length ds - 1"
proof -
  have pos: "0 < b" using assms(2) by linarith
  define M where "M = int (length ds) - 1"
  have M0: "0 \<le> M" unfolding M_def using assms(1) by linarith
  have ne: "ds \<noteq> []" using assms(1) by auto
  have isv: "is = map (\<lambda>k. int k * b) [0..<nat ((M + b - 1) div b)]"
    using window_offsets_pos [OF pos, of ds] assms(3) unfolding M_def by simp
  have each: "int (length (fst (get_batch b ds i))) = min b (M - i)" if "i \<in> set is" for i
  proof -
    from offsets_in_range [OF assms(3) that ne]
    have "0 \<le> i" "i < int (length ds) - 1" by simp_all
    with pos show ?thesis unfolding M_def by (intro get_batch_length)
  qed
  have "int (sum_list (map fst (window_losses net b m ds h is))) =
          sum_list (map (\<lambda>i. int (length (fst (get_batch b ds i)))) is)"
    by (simp add: int_sum_list_nat window_losses_lengths comp_def)
  also have "\<dots> = sum_list (map (\<lambda>i. min b (M - i)) is)"
    using each by (intro arg_cong [where f = sum_list] map_cong refl) 
  also have "\<dots> = (\<Sum>k\<leftarrow>[0..<nat ((M + b - 1) div b)]. min b (M - int k * b))"
    unfolding isv by (simp add: comp_def)
  also have "\<dots> = M" by (rule all_windows_sum [OF pos M0])
  finally have "int (sum_list (map fst (window_losses net b m ds h is))) = int (length ds) - 1"
    unfolding M_def .
  then show ?thesis by linarith
qed


text \<open>
  Claim C6, as amended. On a stream of \<open>N \<ge> 2\<close> steps and with a BPTT length of at least
  1, the loop has at least one window and \<^verbatim>\<open>evaluate\<close> returns the sum over the
  windows of \<open>window_length * cross_entropy\<close>, divided by \<open>N\<close>. The window lengths add
  up to \<open>N - 1\<close>, so the value returned is \<open>(N - 1) / N\<close> times the length-weighted
  average of the window losses.
\<close>

theorem evaluate_weighted_average:
  assumes "2 \<le> length data_source" and "1 \<le> bptt a"
  shows "\<exists>is. window_offsets (bptt a) data_source = Inr is \<and> is \<noteq> [] \<and>
           snd (evaluate net a m data_source) =
             Inr ((\<Sum>(len, ce) \<leftarrow> window_losses net (bptt a) (m\<lparr>training := False\<rparr>) data_source
                                      (init_hidden net eval_batch_size) is.
                     real len * ce) / real (length data_source)) \<and>
           (\<Sum>(len, ce) \<leftarrow> window_losses net (bptt a) (m\<lparr>training := False\<rparr>) data_source
                              (init_hidden net eval_batch_size) is. len) =
             length data_source - 1 \<and>
           snd (evaluate net a m data_source) =
             Inr (real (length data_source - 1) / real (length data_source) *
                  ((\<Sum>(len, ce) \<leftarrow> window_losses net (bptt a) (m\<lparr>training := False\<rparr>)
                                        data_source (init_hidden net eval_batch_size) is.
                       real len * ce) /
                   real (\<Sum>(len, ce) \<leftarrow> window_losses net (bptt a) (m\<lparr>training := False\<rparr>)
                                          data_source (init_hidden net eval_batch_size) is.
                           len)))"
proof -
  from window_offsets_nonempty [OF assms] obtain rest where
    off: "window_offsets (bptt a) data_source = Inr (0 # rest)" by blast
  define W where "W = window_losses net (bptt a) (m\<lparr>training := False\<rparr>) data_source
                        (init_hidden net eval_batch_size) (0 # rest)"
  define S where "S = (\<Sum>(len, ce) \<leftarrow> W. real len * ce)"
  have n0: "length data_source \<noteq> 0" using assms(1) by linarith
  have loop: "snd (evaluate_loop net (bptt a) (m\<lparr>training := False\<rparr>) data_source
                     (init_hidden net eval_batch_size) IntZero (0 # rest)) = FloatTensor S"
    unfolding S_def W_def by (rule evaluate_loop_first)
  obtain m2 t where el: "evaluate_loop net (bptt a) (m\<lparr>training := False\<rparr>) data_source
                     (init_hidden net eval_batch_size) IntZero (0 # rest) = (m2, t)"
    by (rule prod.exhaust)
  with loop have t: "t = FloatTensor S" by simp
  have ev: "snd (evaluate net a m data_source) = Inr (S / real (length data_source))"
    unfolding evaluate_def Let_def off sum.case el t using n0 by simp
  have "1 \<le> length data_source" using assms(1) by linarith
  from window_lengths_total [OF this assms(2) off]
  have "sum_list (map fst W) = length data_source - 1" unfolding W_def .
  moreover have "(\<lambda>(len, ce). len) = (fst :: nat \<times> real \<Rightarrow> nat)" by (simp add: fun_eq_iff)
  ultimately have len: "(\<Sum>(len, ce) \<leftarrow> W. len) = length data_source - 1" by simp
  have "real (length data_source - 1) \<noteq> 0" using assms(1) by simp
  then have "S / real (length data_source) =
          real (length data_source - 1) / real (length data_source) *
            (S / real (length data_source - 1))" by simp
  with ev have avg: "snd (evaluate net a m data_source) =
          Inr (real (length data_source - 1) / real (length data_source) *
                 (S / real (\<Sum>(len, ce) \<leftarrow> W. len)))"
    by (simp only: len)
  from off ev len avg show ?thesis unfolding S_def W_def by blast
qed

theorem evaluate_weighted_average_witness:
  "2 \<le> length [[1], [2], [3], [4 :: nat]] \<and> 1 \<le> bptt (default_args\<lparr>bptt := 2\<rparr>) \<and>
   window_offsets (bptt (default_args\<lparr>bptt := 2\<rparr>)) [[1], [2], [3], [4 :: nat]] = Inr [0, 2] \<and>
   window_losses demo_net 2 \<lparr>params = [], training = False\<rparr> [[1], [2], [3], [4]]
       (init_hidden demo_net eval_batch_size) [0, 2] = [(2, 5), (1, 4)] \<and>
   snd (evaluate demo_net (default_args\<lparr>bptt := 2\<rparr>) \<lparr>params = [], training = True\<rparr>
          [[1], [2], [3], [4]]) = Inr (7 / 2)"
proof -
  let ?a = "default_args\<lparr>bptt := 2\<rparr>"
  let ?ds = "[[1], [2], [3], [4 :: nat]]"
  let ?m = "\<lparr>params = [] :: real param list, training = True\<rparr>"
  have h1: "2 \<le> length ?ds" by simp
  have h2: "1 \<le> bptt ?a" by simp
  have b: "bptt ?a = 2" by simp
  have off: "window_offsets (bptt ?a) ?ds = Inr [0, 2]"
    by (simp add: window_offsets_def py_range_def upt_conv_Cons)
  have g0: "get_batch 2 ?ds 0 = ([[1], [2]], [2, 3])"
    by (simp add: get_batch_def seq_len_def py_slice_def slice_index_def Let_def)
  have g2: "get_batch 2 ?ds 2 = ([[3]], [4])"
    by (simp add: get_batch_def seq_len_def py_slice_def slice_index_def Let_def)
  have wl: "window_losses demo_net 2 (?m\<lparr>training := False\<rparr>) ?ds
              (init_hidden demo_net eval_batch_size) [0, 2] = [(2, 5), (1, 4)]"
    unfolding window_losses.simps g0 g2 by (simp add: demo_net_def)
  from evaluate_weighted_average [OF h1 h2, of demo_net ?m] obtain "is" where
    ofs: "window_offsets (bptt ?a) ?ds = Inr is"
    and ev: "snd (evaluate demo_net ?a ?m ?ds) =
       Inr ((\<Sum>(len, ce) \<leftarrow> window_losses demo_net (bptt ?a) (?m\<lparr>training := False\<rparr>) ?ds
                                      (init_hidden demo_net eval_batch_size) is.
                     real len * ce) / real (length ?ds))"
    by blast
  from ofs off have "is = [0, 2]" by simp
  with ev have "snd (evaluate demo_net ?a ?m ?ds) =
       Inr ((\<Sum>(len, ce) \<leftarrow> window_losses demo_net 2 (?m\<lparr>training := False\<rparr>) ?ds
                                      (init_hidden demo_net eval_batch_size) [0, 2].
                     real len * ce) / real (length ?ds))"
    by (simp only: b)
  then have v: "snd (evaluate demo_net ?a ?m ?ds) = Inr (7 / 2)"
    by (simp only: wl) simp
  have wl': "window_losses demo_net 2 \<lparr>params = [], training = False\<rparr> ?ds
              (init_hidden demo_net eval_batch_size) [0, 2] = [(2, 5), (1, 4)]"
    using wl by simp
  from h1 h2 off wl' v show ?thesis by (intro conjI)
qed

text \<open>
  The claim as first stated fails in three ways. It covers every stream: on a stream of a
  single step (twelve validation tokens batchified into ten columns) the loop has no
  window, \<^verbatim>\<open>total_loss\<close> is still the int \<open>0\<close> and \<^verbatim>\<open>total_loss[0]\<close> raises. It
  covers every BPTT length: at 0 the \<^verbatim>\<open>range\<close> of line 108 raises. And it calls the
  value a length-weighted average: on four steps with windows of lengths 2 and 1 whose
  cross-entropy is 1 each, the average is 1 and the value returned is \<open>3 / 4\<close>.
\<close>

theorem evaluate_not_an_average:
  "batchify [1, 2, 3, 4, 5, 6, 7, 8, 9, 10, 11, 12 :: nat] eval_batch_size =
     Inr [[1, 2, 3, 4, 5, 6, 7, 8, 9, 10]] \<and>
   snd (evaluate demo_net default_args \<lparr>params = [], training = True\<rparr>
          [[1, 2, 3, 4, 5, 6, 7, 8, 9, 10]]) = Inl TypeError \<and>
   snd (evaluate demo_net (default_args\<lparr>bptt := 0\<rparr>) \<lparr>params = [], training = True\<rparr>
          [[1], [2], [3], [4]]) = Inl ValueError \<and>
   window_losses (demo_net\<lparr>criterion := (\<lambda>out targets. 1)\<rparr>) 2
       \<lparr>params = [], training = False\<rparr> [[1], [2], [3], [4]]
       (init_hidden demo_net eval_batch_size) [0, 2] = [(2, 1), (1, 1)] \<and>
   snd (evaluate (demo_net\<lparr>criterion := (\<lambda>out targets. 1)\<rparr>) (default_args\<lparr>bptt := 2\<rparr>)
          \<lparr>params = [], training = True\<rparr> [[1], [2], [3], [4]]) = Inr (3 / 4) \<and>
   snd (evaluate (demo_net\<lparr>criterion := (\<lambda>out targets. 1)\<rparr>) (default_args\<lparr>bptt := 2\<rparr>)
          \<lparr>params = [], training = True\<rparr> [[1], [2], [3], [4]]) \<noteq> Inr 1"
proof -
  let ?ds = "[[1], [2], [3], [4 :: nat]]"
  let ?one = "demo_net\<lparr>criterion := (\<lambda>out targets. 1)\<rparr>"
  have b: "batchify [1, 2, 3, 4, 5, 6, 7, 8, 9, 10, 11, 12 :: nat] eval_batch_size =
     Inr [[1, 2, 3, 4, 5, 6, 7, 8, 9, 10]]" by code_simp
  have off1: "window_offsets (bptt default_args) [[1, 2, 3, 4, 5, 6, 7, 8, 9, 10 :: nat]] = Inr []"
    by (simp add: window_offsets_def py_range_def default_args_def)
  have e1: "snd (evaluate demo_net default_args \<lparr>params = [], training = True\<rparr>
          [[1, 2, 3, 4, 5, 6, 7, 8, 9, 10]]) = Inl TypeError"
    unfolding evaluate_def Let_def off1 by simp
  have e2: "snd (evaluate demo_net (default_args\<lparr>bptt := 0\<rparr>) \<lparr>params = [], training = True\<rparr>
          ?ds) = Inl ValueError"
    by (simp add: evaluate_def Let_def window_offsets_zero)
  have off3: "window_offsets 2 ?ds = Inr [0, 2]"
    by (simp add: window_offsets_def py_range_def upt_conv_Cons)
  have g0: "get_batch 2 ?ds 0 = ([[1], [2]], [2, 3])"
    by (simp add: get_batch_def seq_len_def py_slice_def slice_index_def Let_def)
  have g2: "get_batch 2 ?ds 2 = ([[3]], [4])"
    by (simp add: get_batch_def seq_len_def py_slice_def slice_index_def Let_def)
  have wl: "window_losses ?one 2 \<lparr>params = [], training = False\<rparr> ?ds
       (init_hidden demo_net eval_batch_size) [0, 2] = [(2, 1), (1, 1)]"
    unfolding window_losses.simps g0 g2 by (simp add: demo_net_def)
  have b2: "bptt (default_args\<lparr>bptt := 2\<rparr>) = 2" by simp
  have e3: "snd (evaluate ?one (default_args\<lparr>bptt := 2\<rparr>)
          \<lparr>params = [], training = True\<rparr> ?ds) = Inr (3 / 4)"
    unfolding evaluate_def Let_def off3 b2 sum.case evaluate_loop.simps g0 g2
    by (simp add: demo_net_def)
  then have e4: "snd (evaluate ?one (default_args\<lparr>bptt := 2\<rparr>)
          \<lparr>params = [], training = True\<rparr> ?ds) \<noteq> Inr 1" by simp
  from b e1 e2 wl e3 e4 show ?thesis by (intro conjI)
qed





lemma evaluate_loop_init_hidden:
  "evaluate_loop (net\<lparr>init_hidden := f\<rparr>) b m ds h tot is = evaluate_loop net b m ds h tot is"
  by (induction "is" arbitrary: m h tot) (simp_all split: prod.splits)

text \<open>
  Claim C10. The validation and the test grid are \<^verbatim>\<open>batchify\<close> with stream count 10
  whatever \<open>batch_size\<close> is; changing \<open>batch_size\<close> changes neither of them nor the result
  of \<^verbatim>\<open>evaluate\<close>, while the training grid is batchified with \<open>batch_size\<close>.
  \<^verbatim>\<open>evaluate\<close> runs its loop from the hidden state \<^verbatim>\<open>init_hidden(10)\<close>: it gives
  the same result with any \<^verbatim>\<open>init_hidden\<close> that agrees at 10, and on the model that
  shows its hidden state, with one window of one step on a grid of two steps, the loss
  returned is \<open>1 * 10 / 2\<close>, at the default batch size 20 and at batch size 3 alike.
\<close>

theorem eval_stream_count_fixed:
  "val_data a c = batchify (valid_stream c) 10 \<and>
   test_data a c = batchify (test_stream c) 10 \<and>
   val_data (a\<lparr>batch_size := b\<rparr>) c = val_data a c \<and>
   test_data (a\<lparr>batch_size := b\<rparr>) c = test_data a c \<and>
   train_data (a\<lparr>batch_size := b\<rparr>) c = batchify (train_stream c) b \<and>
   evaluate net (a\<lparr>batch_size := b\<rparr>) m ds = evaluate net a m ds \<and>
   evaluate (net\<lparr>init_hidden := f\<rparr>) a m ds =
     evaluate (net\<lparr>init_hidden := (\<lambda>n. f 10)\<rparr>) a m ds \<and>
   evaluate net a m ds =
     (case window_offsets (bptt a) ds of
        Inl e \<Rightarrow> (m\<lparr>training := False\<rparr>, Inl e)
      | Inr ofs \<Rightarrow>
          (case evaluate_loop net (bptt a) (m\<lparr>training := False\<rparr>) ds (init_hidden net 10)
                  IntZero ofs of
             (m2, IntZero) \<Rightarrow> (m2, Inl TypeError)
           | (m2, FloatTensor s) \<Rightarrow>
               if length ds = 0 then (m2, Inl ZeroDivisionError)
               else (m2, Inr (s / real (length ds))))) \<and>
   snd (evaluate probe_net (default_args\<lparr>bptt := 1\<rparr>) \<lparr>params = [], training = True\<rparr>
          [[1], [2]]) = Inr (1 * 10 / 2) \<and>
   snd (evaluate probe_net (default_args\<lparr>bptt := 1, batch_size := 3\<rparr>)
          \<lparr>params = [], training = True\<rparr> [[1], [2]]) = Inr (1 * 10 / 2)"
proof -
  have e1: "evaluate net (a\<lparr>batch_size := b\<rparr>) m ds = evaluate net a m ds"
    by (simp add: evaluate_def Let_def cong: sum.case_cong)
  have e2: "evaluate (net\<lparr>init_hidden := f\<rparr>) a m ds =
     evaluate (net\<lparr>init_hidden := (\<lambda>n. f 10)\<rparr>) a m ds"
    by (simp add: evaluate_def Let_def eval_batch_size_def evaluate_loop_init_hidden
          cong: sum.case_cong)
  have e3: "evaluate net a m ds =
     (case window_offsets (bptt a) ds of
        Inl e \<Rightarrow> (m\<lparr>training := False\<rparr>, Inl e)
      | Inr ofs \<Rightarrow>
          (case evaluate_loop net (bptt a) (m\<lparr>training := False\<rparr>) ds (init_hidden net 10)
                  IntZero ofs of
             (m2, IntZero) \<Rightarrow> (m2, Inl TypeError)
           | (m2, FloatTensor s) \<Rightarrow>
               if length ds = 0 then (m2, Inl ZeroDivisionError)
               else (m2, Inr (s / real (length ds)))))"
    by (simp add: evaluate_def Let_def eval_batch_size_def)
  have off: "window_offsets 1 [[1], [2 :: nat]] = Inr [0]"
    by (simp add: window_offsets_def py_range_def upt_conv_Cons)
  have g0: "get_batch 1 [[1], [2 :: nat]] 0 = ([[1]], [2])"
    by (simp add: get_batch_def seq_len_def py_slice_def slice_index_def Let_def)
  have p: "snd (evaluate probe_net a' \<lparr>params = [], training = True\<rparr> [[1], [2]]) =
             Inr (1 * 10 / 2)" if "bptt a' = 1" for a'
    unfolding evaluate_def Let_def that off sum.case evaluate_loop.simps g0
    by (simp add: probe_net_def eval_batch_size_def)
  have p1: "snd (evaluate probe_net (default_args\<lparr>bptt := 1\<rparr>)
              \<lparr>params = [], training = True\<rparr> [[1], [2]]) = Inr (1 * 10 / 2)"
    by (rule p) simp
  have p2: "snd (evaluate probe_net (default_args\<lparr>bptt := 1, batch_size := 3\<rparr>)
              \<lparr>params = [], training = True\<rparr> [[1], [2]]) = Inr (1 * 10 / 2)"
    by (rule p) simp
  have d: "val_data a c = batchify (valid_stream c) 10 \<and>
   test_data a c = batchify (test_stream c) 10 \<and>
   val_data (a\<lparr>batch_size := b\<rparr>) c = val_data a c \<and>
   test_data (a\<lparr>batch_size := b\<rparr>) c = test_data a c \<and>
   train_data (a\<lparr>batch_size := b\<rparr>) c = batchify (train_stream c) b"
    by (simp add: val_data_def test_data_def train_data_def eval_batch_size_def)
  from d e1 e2 e3 p1 p2 show ?thesis by (intro conjI) simp_all
qed

subsection \<open>Epoch controller\<close>

text \<open>
  What lines 196-202 do: the checkpoint is written, and the learning rate kept, when there
  is no best loss yet, when the best loss is \<open>0.0\<close> (Python's \<^verbatim>\<open>not best_val_loss\<close>
  holds of it), or when the validation loss is strictly lower than the best; otherwise
  the learning rate is divided by 4.
\<close>

lemma end_of_epoch_cases:
  "end_of_epoch epoch val_loss c =
     (if best_val_loss c = None \<or> best_val_loss c = Some 0 \<or>
         (\<exists>b. best_val_loss c = Some b \<and> val_loss < b)
      then c\<lparr>model_pt := Some (model c), best_val_loss := Some val_loss,
             ckpt_epochs := ckpt_epochs c @ [epoch]\<rparr>
      else c\<lparr>lr := lr c / 4\<rparr>)"
  by (cases "best_val_loss c") (simp_all add: end_of_epoch_def py_not_def)

lemma end_of_epoch_nonzero_best:
  assumes "best_val_loss c \<noteq> Some 0"
  shows "end_of_epoch epoch val_loss c =
     (if best_val_loss c = None \<or> (\<exists>b. best_val_loss c = Some b \<and> val_loss < b)
      then c\<lparr>model_pt := Some (model c), best_val_loss := Some val_loss,
             ckpt_epochs := ckpt_epochs c @ [epoch]\<rparr>
      else c\<lparr>lr := lr c / 4\<rparr>)"
  using assms by (simp add: end_of_epoch_cases)

text \<open>
  The validation losses 5.0, 4.0, 4.5, 3.0: checkpoints after epochs 1, 2 and 4, one
  annealing step (20 to 5), best loss 3.0.
\<close>

lemma checkpoints_of_spec_sequence:
  "map_sum id (\<lambda>c. (ckpt_epochs c, lr c, best_val_loss c))
     (epoch_loop (scripted_run [5, 4, 4.5, 3]) [1, 2, 3, 4]
        (initial_ctl default_args \<lparr>params = [] :: real param list, training = False\<rparr>)) =
   Inr ([1, 2, 4], 5, Some 3)"
  by (simp add: scripted_run_def initial_ctl_def default_args_def end_of_epoch_def py_not_def)

text \<open>
  Claim C1 at the validation losses 0.0, 1.0. The second loss is not lower than the best
  one so far, yet the checkpoint is written again after epoch 2, the best loss becomes
  1.0 and the learning rate keeps its initial value 20.
\<close>

theorem checkpoint_after_zero_loss:
  "map_sum id (\<lambda>c. (ckpt_epochs c, lr c, best_val_loss c))
     (epoch_loop (scripted_run [0, 1]) [1, 2]
        (initial_ctl default_args \<lparr>params = [] :: real param list, training = False\<rparr>)) =
   Inr ([1, 2], 20, Some 1)"
  by (simp add: scripted_run_def initial_ctl_def default_args_def end_of_epoch_def py_not_def)

lemma epoch_loop_interrupted_at_once:
  assumes "run 1 c = Inl KeyboardInterrupt"
  shows "epoch_loop run [1..<n + 1] c = Inr c"
proof (cases "n = 0")
  case True
  then show ?thesis by simp
next
  case False
  then have "1 < n + 1" by simp
  then have "[1..<n + 1] = 1 # [Suc 1..<n + 1]" by (rule upt_conv_Cons)
  then show ?thesis using assms by simp
qed

text \<open>
  Claim C8 at an interruption during the first epoch. With a stream count that
  \<^verbatim>\<open>batchify\<close> accepts, the loop is left, the checkpoint file has never been written,
  and opening it raises: the final test evaluation does not take place.
\<close>

theorem interrupt_before_first_checkpoint:
  "main net a corp (Some 1) m =
     (if batch_size a = 0 then Inl ZeroDivisionError else Inl FileNotFoundError)"
proof (cases "batch_size a = 0")
  case True
  then show ?thesis by (simp add: main_def train_data_def batchify_def)
next
  case False
  have loop: "epoch_loop (run_epoch net a tg vg (Some 1)) [1..<epochs a + 1] (initial_ctl a m) =
        Inr (initial_ctl a m)" for tg vg
    by (rule epoch_loop_interrupted_at_once) (simp add: run_epoch_def)
  have ctl: "controller net a (run_epoch net a tg vg (Some 1)) testg m = Inl FileNotFoundError"
    for tg vg testg
    unfolding controller_def loop by (simp add: final_evaluation_def initial_ctl_def)
  have ex: "\<exists>g. batchify xs b = Inr g" if "b \<noteq> 0" for xs :: "nat list" and b
    using that by (simp add: batchify_def Let_def)
  from ex [OF False] obtain tg where tg: "train_data a corp = Inr tg"
    unfolding train_data_def by blast
  from ex [of eval_batch_size] obtain vg where vg: "val_data a corp = Inr vg"
    unfolding val_data_def eval_batch_size_def by auto
  from ex [of eval_batch_size] obtain testg where testg: "test_data a corp = Inr testg"
    unfolding test_data_def eval_batch_size_def by auto
  have "main net a corp (Some 1) m = controller net a (run_epoch net a tg vg (Some 1)) testg m"
    unfolding main_def tg vg testg by (simp only: sum.case)
  with ctl False show ?thesis by simp
qed

text \<open>
  An interruption once a checkpoint exists: the loop ends with the globals as they are
  and the final evaluation runs on the model of the checkpoint.
\<close>

lemma interrupt_after_checkpoint:
  assumes "model_pt c = Some best" and "run epoch c = Inl KeyboardInterrupt"
  shows "epoch_loop run (epoch # rest) c = Inr c \<and>
         final_evaluation net a test_grid c = snd (evaluate net a best test_grid)"
  using assms by (simp add: final_evaluation_def)

subsection \<open>Optimizer step\<close>

lemma sgd_update_ok:
  assumes "\<forall>p \<in> set ps. requires_grad p \<longrightarrow> pgrad p \<noteq> None"
  shows "sgd_update lr_now ps =
           Inr (map (\<lambda>p. if requires_grad p
                          then p\<lparr>pdata := pdata p - lr_now *\<^sub>R the (pgrad p)\<rparr> else p) ps)"
  using assms
proof (induction ps)
  case Nil
  show ?case by simp
next
  case (Cons p ps)
  then have IH: "sgd_update lr_now ps =
           Inr (map (\<lambda>p. if requires_grad p
                          then p\<lparr>pdata := pdata p - lr_now *\<^sub>R the (pgrad p)\<rparr> else p) ps)"
    by simp
  show ?case
  proof (cases "requires_grad p")
    case True
    with Cons.prems obtain g where "pgrad p = Some g" by auto
    with True IH show ?thesis by simp
  next
    case False
    with IH show ?thesis by simp
  qed
qed

text \<open>
  A parameter that requires gradients and has none stops the update with the exception of
  \<^verbatim>\<open>None.data\<close>.
\<close>

lemma sgd_update_missing_grad:
  assumes "p \<in> set ps" "requires_grad p" "pgrad p = None"
  shows "sgd_update lr_now ps = Inl AttributeError"
  using assms
proof (induction ps)
  case Nil
  then show ?case by simp
next
  case (Cons q qs)
  show ?case
  proof (cases "q = p")
    case True
    with Cons.prems show ?thesis by simp
  next
    case False
    with Cons have "sgd_update lr_now qs = Inl AttributeError" by simp
    then show ?thesis by (simp split: option.splits)
  qed
qed

lemma zero_grad_zero: "p \<in> set (zero_grad ps) \<Longrightarrow> pgrad p = None \<or> pgrad p = Some 0"
  by (auto simp: zero_grad_def split: option.splits)

lemma zero_grad_idem: "zero_grad (zero_grad ps) = zero_grad ps"
  by (simp add: zero_grad_def option.map_comp comp_def)

lemma forward_backward_model:
  "fst (forward_backward net a source s i) = (t_model s)\<lparr>params := zero_grad (params (t_model s))\<rparr>"
  by (simp add: forward_backward_def Let_def split: prod.splits)

lemma forward_backward_zeroed:
  "forward_backward net a source
     (s\<lparr>t_model := (t_model s)\<lparr>params := zero_grad (params (t_model s))\<rparr>\<rparr>) i =
   forward_backward net a source s i"
  by (simp add: forward_backward_def zero_grad_idem)

text \<open>
  Claim C5, as amended. Take one window of the training loop, and let every parameter
  that requires gradients have one after the backward pass and the clipping. Then the
  optimizer step succeeds; every parameter that requires gradients is replaced by
  \<open>param - lr * grad\<close>, with the clipped gradient, and every other parameter is passed on
  untouched; these are the parameters the window leaves in the model; and the forward and
  backward pass of the window ran on a model whose gradients had been zeroed (each is
  absent or zero), so that the window does not depend on the gradients left by the
  window before.
\<close>

theorem optimizer_step_sgd:
  assumes "forward_backward net a source s i = (m0, hidden1, vals, ps1)"
    and "\<forall>p \<in> set (clip_grad_norm net ps1 (clip a)). requires_grad p \<longrightarrow> pgrad p \<noteq> None"
  shows "optimizer_step net a lr_now ps1 =
           Inr (map (\<lambda>p. if requires_grad p
                          then p\<lparr>pdata := pdata p - lr_now *\<^sub>R the (pgrad p)\<rparr> else p)
                  (clip_grad_norm net ps1 (clip a))) \<and>
         (\<forall>s1. train_window net a epoch lr_now source s (batch, i) = Inr s1 \<longrightarrow>
            params (t_model s1) =
              map (\<lambda>p. if requires_grad p
                        then p\<lparr>pdata := pdata p - lr_now *\<^sub>R the (pgrad p)\<rparr> else p)
                (clip_grad_norm net ps1 (clip a))) \<and>
         params m0 = zero_grad (params (t_model s)) \<and>
         (\<forall>p \<in> set (params m0). pgrad p = None \<or> pgrad p = Some 0) \<and>
         forward_backward net a source
           (s\<lparr>t_model := (t_model s)\<lparr>params := zero_grad (params (t_model s))\<rparr>\<rparr>) i =
           (m0, hidden1, vals, ps1)"
proof -
  let ?new = "map (\<lambda>p. if requires_grad p
                          then p\<lparr>pdata := pdata p - lr_now *\<^sub>R the (pgrad p)\<rparr> else p)
                  (clip_grad_norm net ps1 (clip a))"
  have step: "optimizer_step net a lr_now ps1 = Inr ?new"
    unfolding optimizer_step_def by (rule sgd_update_ok [OF assms(2)])
  have win: "params (t_model s1) = ?new"
    if "train_window net a epoch lr_now source s (batch, i) = Inr s1" for s1
    using that by (auto simp: train_window_def assms(1) step split: sum.splits prod.splits)
  have m0: "m0 = (t_model s)\<lparr>params := zero_grad (params (t_model s))\<rparr>"
    using forward_backward_model [of net a source s i] assms(1) by simp
  then have pm0: "params m0 = zero_grad (params (t_model s))" by simp
  have zero: "\<forall>p \<in> set (params m0). pgrad p = None \<or> pgrad p = Some 0"
    unfolding pm0 using zero_grad_zero by blast
  have again: "forward_backward net a source
           (s\<lparr>t_model := (t_model s)\<lparr>params := zero_grad (params (t_model s))\<rparr>\<rparr>) i =
           (m0, hidden1, vals, ps1)"
    using forward_backward_zeroed [of net a source s i] assms(1) by simp
  from step win pm0 zero again show ?thesis by blast
qed


theorem optimizer_step_sgd_witness:
  "forward_backward demo_net (default_args\<lparr>bptt := 1\<rparr>) [[1], [2], [3]]
      \<lparr>t_model = \<lparr>params = [\<lparr>pdata = 10, pgrad = Some 7, requires_grad = True\<rparr>,
                              \<lparr>pdata = 3, pgrad = None, requires_grad = False\<rparr>],
                    training = True\<rparr>,
       t_hidden = Variable 0 False, t_total_loss = 0, t_metrics = [], t_log = []\<rparr> 0 =
     (\<lparr>params = [\<lparr>pdata = 10, pgrad = Some 0, requires_grad = True\<rparr>,
                 \<lparr>pdata = 3, pgrad = None, requires_grad = False\<rparr>],
       training = True\<rparr>,
      Variable 0 False, (2, 0, 2, exp 2),
      [\<lparr>pdata = 10, pgrad = Some 1, requires_grad = True\<rparr>,
       \<lparr>pdata = 3, pgrad = None, requires_grad = False\<rparr>]) \<and>
   optimizer_step demo_net (default_args\<lparr>bptt := 1\<rparr>) 2
      [\<lparr>pdata = 10, pgrad = Some 1, requires_grad = True\<rparr>,
       \<lparr>pdata = 3, pgrad = None, requires_grad = False\<rparr>] =
     Inr [\<lparr>pdata = 8, pgrad = Some 1, requires_grad = True\<rparr>,
          \<lparr>pdata = 3, pgrad = None, requires_grad = False\<rparr>]"
proof -
  let ?a = "default_args\<lparr>bptt := 1\<rparr>"
  let ?s = "\<lparr>t_model = \<lparr>params = [\<lparr>pdata = 10 :: real, pgrad = Some 7, requires_grad = True\<rparr>,
                              \<lparr>pdata = 3, pgrad = None, requires_grad = False\<rparr>],
                    training = True\<rparr>,
       t_hidden = Variable 0 False, t_total_loss = 0, t_metrics = [], t_log = []\<rparr>"
  let ?ps1 = "[\<lparr>pdata = 10 :: real, pgrad = Some 1, requires_grad = True\<rparr>,
       \<lparr>pdata = 3, pgrad = None, requires_grad = False\<rparr>]"
  have g: "get_batch 1 [[1], [2], [3 :: nat]] 0 = ([[1]], [2])"
    by (simp add: get_batch_def seq_len_def py_slice_def slice_index_def Let_def)
  have b: "bptt ?a = 1" by simp
  have fb: "forward_backward demo_net ?a [[1], [2], [3]] ?s 0 =
     (\<lparr>params = [\<lparr>pdata = 10, pgrad = Some 0, requires_grad = True\<rparr>,
                 \<lparr>pdata = 3, pgrad = None, requires_grad = False\<rparr>],
       training = True\<rparr>,
      Variable 0 False, (2, 0, 2, exp 2), ?ps1)"
    unfolding forward_backward_def b g
    by (simp add: demo_net_def zero_grad_def default_args_def Let_def)
  have h: "\<forall>p \<in> set (clip_grad_norm demo_net ?ps1 (clip ?a)). requires_grad p \<longrightarrow> pgrad p \<noteq> None"
    by (simp add: demo_net_def)
  have c: "clip_grad_norm demo_net ?ps1 (clip ?a) = ?ps1" by (simp add: demo_net_def)
  from optimizer_step_sgd [OF fb h, of 2]
  have "optimizer_step demo_net ?a 2 ?ps1 =
           Inr (map (\<lambda>p. if requires_grad p
                          then p\<lparr>pdata := pdata p - 2 *\<^sub>R the (pgrad p)\<rparr> else p)
                  (clip_grad_norm demo_net ?ps1 (clip ?a)))"
    by blast
  then have "optimizer_step demo_net ?a 2 ?ps1 =
     Inr [\<lparr>pdata = 8, pgrad = Some 1, requires_grad = True\<rparr>,
          \<lparr>pdata = 3, pgrad = None, requires_grad = False\<rparr>]"
    unfolding c by simp
  with fb show ?thesis by (intro conjI)
qed

text \<open>
  The claim as first stated has parameters without a gradient skipped. The update tests
  \<^verbatim>\<open>requires_grad\<close> instead: a parameter that requires gradients and has none is not
  skipped, the step raises.
\<close>

theorem optimizer_step_missing_gradient:
  "optimizer_step demo_net default_args 20
     [\<lparr>pdata = 1, pgrad = None, requires_grad = True\<rparr>] = Inl AttributeError"
  by (simp add: optimizer_step_def demo_net_def)

subsection \<open>Progress reports\<close>

text \<open>
  What lines 161-175 do with a non-zero interval: a report on every window whose number
  is a positive multiple of the interval, holding the running total divided by the
  interval and the exponential of that quotient, after which the total restarts at 0.
\<close>

lemma log_progress_cases:
  assumes "log_interval a \<noteq> 0"
  shows "log_progress a epoch lr_now source batch (tlv, clv, ce, pp) tot lg =
     (if int batch mod log_interval a = 0 \<and> 0 < batch then
        Inr (0, lg @ [\<lparr>l_epoch = epoch, l_batch = batch,
                        l_batches = int (length source) div bptt a, l_lr = lr_now,
                        l_cur_loss = (tot + ce) / real_of_int (log_interval a),
                        l_ppl = exp ((tot + ce) / real_of_int (log_interval a)),
                        l_train_loss = tlv, l_center_loss = clv, l_cross_entropy = ce,
                        l_perplexity = pp\<rparr>])
      else Inr (tot + ce, lg))"
  using assms by (simp add: log_progress_def Let_def)

text \<open>
  Claim C7 at an interval of 2 and five windows with cross-entropies 2, 3, 4, 5 and 6.
  The first report comes at window 2 and holds 4.5 (with perplexity \<open>exp 4.5\<close>): the
  total runs over the windows 0, 1 and 2 and is divided by 2, while the mean of the values
  accumulated is 3, and no mean of values between 2 and 4 is 4.5. The second report, at
  window 4, holds 5.5, the mean of the two values since the first.
\<close>

theorem first_report_not_a_mean:
  "map_sum id (\<lambda>s. (map (\<lambda>v. fst (snd (snd v))) (t_metrics s),
                    map (\<lambda>l. (l_batch l, l_cur_loss l, l_ppl l)) (t_log s)))
     (train demo_net (default_args\<lparr>bptt := 1, log_interval := 2\<rparr>) 1 20
        [[1], [2], [3], [4], [5], [6]] \<lparr>params = [], training = False\<rparr> [] []) =
   Inr ([2, 3, 4, 5, 6], [(2, 9 / 2, exp (9 / 2)), (4, 11 / 2, exp (11 / 2))])"
proof -
  let ?a = "default_args\<lparr>bptt := 1, log_interval := 2\<rparr>"
  let ?ds = "[[1], [2], [3], [4], [5], [6 :: nat]]"
  have b: "bptt ?a = 1" by simp
  have off: "window_offsets 1 ?ds = Inr [0, 1, 2, 3, 4]"
    by (simp add: window_offsets_def py_range_def upt_conv_Cons)
  have en: "enumerate 0 [0, 1, 2, 3, 4 :: int] = [(0, 0), (1, 1), (2, 2), (3, 3), (4, 4)]"
    by simp
  have g0: "get_batch 1 ?ds 0 = ([[1]], [2])"
    by (simp add: get_batch_def seq_len_def py_slice_def slice_index_def Let_def)
  have g1: "get_batch 1 ?ds 1 = ([[2]], [3])"
    by (simp add: get_batch_def seq_len_def py_slice_def slice_index_def Let_def)
  have g2: "get_batch 1 ?ds 2 = ([[3]], [4])"
    by (simp add: get_batch_def seq_len_def py_slice_def slice_index_def Let_def)
  have g3: "get_batch 1 ?ds 3 = ([[4]], [5])"
    by (simp add: get_batch_def seq_len_def py_slice_def slice_index_def Let_def)
  have g4: "get_batch 1 ?ds 4 = ([[5]], [6])"
    by (simp add: get_batch_def seq_len_def py_slice_def slice_index_def Let_def)
  show ?thesis
    unfolding train_def b off en sum.case train_loop.simps train_window_def
      forward_backward_def prod.case g0 g1 g2 g3 g4
    by (simp add: demo_net_def optimizer_step_def log_progress_def zero_grad_def
        default_args_def Let_def)
qed

end
